theory Spec2Isabelle
  imports Main "HOL-Library.Multiset"
begin

section \<open>Data model\<close>

text \<open>
  The two screens, \<^verbatim>\<open>app/(tabs)/index.tsx\<close> (profile) and \<^verbatim>\<open>app/(tabs)/projects.tsx\<close>
  (all repositories), hold what the GitHub REST API returns in React state. The records
  below are the TypeScript interfaces of the two files. A JavaScript \<^verbatim>\<open>number\<close> that
  holds a count is an \<^typ>\<open>int\<close>: the counts are integers, far below \<open>2 ^ 53\<close>, where
  the arithmetic of the source (one sum, one difference) is exact.
\<close>

text \<open>A value that is a \<^verbatim>\<open>T\<close>, \<^verbatim>\<open>undefined\<close> or \<^verbatim>\<open>null\<close>.\<close>

datatype 'a js = Undefined | Null | Val 'a

text \<open>\<^verbatim>\<open>interface GitHubProfile\<close>; its field \<^verbatim>\<open>name\<close> is \<open>profile_name\<close> here.\<close>

record GitHubProfile =
  avatar_url :: string
  profile_name :: string
  bio :: string
  public_repos :: int
  followers :: int

text \<open>
  \<^verbatim>\<open>interface Repository\<close> of \<^verbatim>\<open>projects.tsx\<close>; the interface of \<^verbatim>\<open>index.tsx\<close> declares
  six of these fields for the same JSON objects. Its field \<^verbatim>\<open>id\<close> is \<open>repo_id\<close> here.
\<close>

record Repository =
  repo_id :: int
  name :: string
  description :: string
  stargazers_count :: int
  language :: string
  created_at :: string
  updated_at :: string
  html_url :: string
  forks_count :: int
  open_issues_count :: int
  topics :: "string list"

section \<open>The platform: promises, responses, arrays\<close>

text \<open>What a \<^verbatim>\<open>throw\<close> or a rejected promise carries.\<close>

datatype exn = Error string | TypeError | SyntaxError | RangeError

text \<open>
  A settled promise. The outcome of \<^verbatim>\<open>fetch(url)\<close> is an input of the model: it rejects
  on a network failure and is fulfilled with a response otherwise.
\<close>

datatype 'a Promise = Rejected exn | Fulfilled 'a

text \<open>
  A response: its \<^verbatim>\<open>ok\<close> flag and the outcome of \<^verbatim>\<open>await response.json()\<close>, which throws
  on a body that is not JSON.
\<close>

datatype 'a Response = Response (ok: bool) (json: "exn + 'a")

text \<open>\<^verbatim>\<open>await Promise.all([p, q])\<close>: throws as soon as one of the two rejects.\<close>

fun Promise_all :: "'a Promise \<Rightarrow> 'b Promise \<Rightarrow> exn + ('a \<times> 'b)" where
  "Promise_all (Rejected e) _ = Inl e"
| "Promise_all (Fulfilled a) (Rejected e) = Inl e"
| "Promise_all (Fulfilled a) (Fulfilled b) = Inr (a, b)"

text \<open>\<^verbatim>\<open>await p\<close> for a single promise.\<close>

fun await :: "'a Promise \<Rightarrow> exn + 'a" where
  "await (Rejected e) = Inl e"
| "await (Fulfilled a) = Inr a"

text \<open>
  \<^verbatim>\<open>Array.prototype.sort(comparefn)\<close>. The engine's algorithm is not part of the
  repository; ECMAScript requires a stable sort, so for a consistent comparator the
  result is the one list computed here: an element goes before the first element that
  \<open>comparefn\<close> does not put before it (\<open>comparefn x y \<le> 0\<close>), and elements are inserted
  from the right, so that equal elements keep their order.
\<close>

fun insert_by :: "('a \<Rightarrow> 'a \<Rightarrow> int) \<Rightarrow> 'a \<Rightarrow> 'a list \<Rightarrow> 'a list" where
  "insert_by comparefn x [] = [x]"
| "insert_by comparefn x (y # ys) =
     (if comparefn x y \<le> 0 then x # y # ys else y # insert_by comparefn x ys)"

fun Array_sort :: "('a \<Rightarrow> 'a \<Rightarrow> int) \<Rightarrow> 'a list \<Rightarrow> 'a list" where
  "Array_sort comparefn [] = []"
| "Array_sort comparefn (x # xs) = insert_by comparefn x (Array_sort comparefn xs)"

text \<open>\<^verbatim>\<open>xs.reduce(f, init)\<close> runs from the left; \<^verbatim>\<open>xs.slice(0, n)\<close> keeps the first \<open>n\<close>.\<close>

definition Array_reduce :: "('b \<Rightarrow> 'a \<Rightarrow> 'b) \<Rightarrow> 'b \<Rightarrow> 'a list \<Rightarrow> 'b" where
  "Array_reduce f init xs = foldl f init xs"

definition Array_slice0 :: "nat \<Rightarrow> 'a list \<Rightarrow> 'a list" where
  "Array_slice0 n xs = take n xs"

section \<open>The profile screen (\<^verbatim>\<open>index.tsx\<close>)\<close>

text \<open>The five \<^verbatim>\<open>useState\<close> cells of \<^verbatim>\<open>ProfileScreen\<close> and their initial values.\<close>

record ProfileScreen =
  profile :: "GitHubProfile option"
  topRepos :: "Repository list"
  totalStars :: int
  loading :: bool
  error :: "string option"

definition ProfileScreen_init :: ProfileScreen where
  "ProfileScreen_init =
     \<lparr>profile = None, topRepos = [], totalStars = 0, loading = True, error = None\<rparr>"

text \<open>The comparator \<^verbatim>\<open>(a, b) => b.stargazers_count - a.stargazers_count\<close> of \<^verbatim>\<open>index.tsx\<close>.\<close>

definition by_stars :: "Repository \<Rightarrow> Repository \<Rightarrow> int" where
  "by_stars a b = stargazers_count b - stargazers_count a"

text \<open>
  The \<^verbatim>\<open>try\<close> block of \<^verbatim>\<open>fetchGitHubData\<close>: \<open>Inl\<close> when it throws, else the state after
  its three setters. Every statement that can throw (the joint await, the status check,
  the two \<^verbatim>\<open>json()\<close> calls) comes before the first setter, so a throw leaves the state
  as it was.
\<close>

definition fetchGitHubData_try ::
  "GitHubProfile Response Promise \<Rightarrow> Repository list Response Promise \<Rightarrow>
   ProfileScreen \<Rightarrow> exn + ProfileScreen" where
  "fetchGitHubData_try profileFetch reposFetch s =
     (case Promise_all profileFetch reposFetch of
        Inl e \<Rightarrow> Inl e
      | Inr (profileResponse, reposResponse) \<Rightarrow>
          if \<not> ok profileResponse \<or> \<not> ok reposResponse
          then Inl (Error ''Failed to fetch GitHub data'')
          else (case json profileResponse of
                  Inl e \<Rightarrow> Inl e
                | Inr profileData \<Rightarrow>
                   (case json reposResponse of
                      Inl e \<Rightarrow> Inl e
                    | Inr reposData \<Rightarrow>
                        let stars = Array_reduce (\<lambda>acc repo. acc + stargazers_count repo) 0 reposData;
                            s1 = s\<lparr>totalStars := stars\<rparr>;
                            sortedRepos = Array_slice0 3 (Array_sort by_stars reposData)
                        in Inr (s1\<lparr>profile := Some profileData, topRepos := sortedRepos\<rparr>))))"

text \<open>\<^verbatim>\<open>fetchGitHubData\<close>: the \<^verbatim>\<open>try\<close> block, its \<^verbatim>\<open>catch\<close> and its \<^verbatim>\<open>finally\<close>.\<close>

definition fetchGitHubData ::
  "GitHubProfile Response Promise \<Rightarrow> Repository list Response Promise \<Rightarrow>
   ProfileScreen \<Rightarrow> ProfileScreen" where
  "fetchGitHubData profileFetch reposFetch s =
     (let s' = (case fetchGitHubData_try profileFetch reposFetch s of
                  Inl err \<Rightarrow> s\<lparr>error := Some ''Failed to load profile data''\<rparr>
                | Inr s2 \<Rightarrow> s2)
      in s'\<lparr>loading := False\<rparr>)"

text \<open>A fetch that is fulfilled with status ok and a body that parses to \<open>x\<close>.\<close>

definition succeeded :: "'a \<Rightarrow> 'a Response Promise" where
  "succeeded x = Fulfilled (Response True (Inr x))"

text \<open>
  The dates of the repository cards, lines 168 to 174 of \<^verbatim>\<open>index.tsx\<close>:
  \<^verbatim>\<open>Created {formatDistanceToNow(new Date(repo.created_at))} ago\<close>, and the same for
  \<^verbatim>\<open>updated_at\<close>. A \<^verbatim>\<open>Date\<close> is its time value, \<open>None\<close> for an invalid date. Parsing a
  string (\<^verbatim>\<open>new Date(string)\<close>) belongs to the engine and \<^verbatim>\<open>formatDistanceToNow\<close> to the
  date-fns library, which may throw: both are parameters. The text after the label is
  what the screen displays as the date.
\<close>

type_synonym Date = "int option"

definition ProfileScreen_date ::
  "(string \<Rightarrow> Date) \<Rightarrow> (Date \<Rightarrow> exn + string) \<Rightarrow> string \<Rightarrow> exn + string" where
  "ProfileScreen_date new_Date formatDistanceToNow dateString =
     (case formatDistanceToNow (new_Date dateString) of
        Inl e \<Rightarrow> Inl e
      | Inr distance \<Rightarrow> Inr (distance @ '' ago''))"

section \<open>The all-repositories screen (\<^verbatim>\<open>projects.tsx\<close>)\<close>

text \<open>
  The four \<^verbatim>\<open>useState\<close> cells of \<^verbatim>\<open>ProjectsScreen\<close>; its \<^verbatim>\<open>loading\<close> and \<^verbatim>\<open>error\<close> are
  \<open>projects_loading\<close> and \<open>projects_error\<close> here.
\<close>

record ProjectsScreen =
  repositories :: "Repository list"
  selectedRepo :: "Repository option"
  projects_loading :: bool
  projects_error :: "string option"

definition ProjectsScreen_init :: ProjectsScreen where
  "ProjectsScreen_init =
     \<lparr>repositories = [], selectedRepo = None, projects_loading = True, projects_error = None\<rparr>"

text \<open>The comparator of \<^verbatim>\<open>projects.tsx\<close>, written there a second time.\<close>

definition projects_by_stars :: "Repository \<Rightarrow> Repository \<Rightarrow> int" where
  "projects_by_stars a b = stargazers_count b - stargazers_count a"

text \<open>The \<^verbatim>\<open>try\<close> block of \<^verbatim>\<open>fetchRepositories\<close>; again nothing throws after a setter.\<close>

definition fetchRepositories_try ::
  "Repository list Response Promise \<Rightarrow> ProjectsScreen \<Rightarrow> exn + ProjectsScreen" where
  "fetchRepositories_try reposFetch s =
     (case await reposFetch of
        Inl e \<Rightarrow> Inl e
      | Inr response \<Rightarrow>
          if \<not> ok response
          then Inl (Error ''Failed to fetch repositories'')
          else (case json response of
                  Inl e \<Rightarrow> Inl e
                | Inr data \<Rightarrow>
                    let sortedData = Array_sort projects_by_stars data
                    in Inr (s\<lparr>repositories := sortedData\<rparr>)))"

definition fetchRepositories ::
  "Repository list Response Promise \<Rightarrow> ProjectsScreen \<Rightarrow> ProjectsScreen" where
  "fetchRepositories reposFetch s =
     (let s' = (case fetchRepositories_try reposFetch s of
                  Inl err \<Rightarrow> s\<lparr>projects_error := Some ''Failed to load repositories''\<rparr>
                | Inr s2 \<Rightarrow> s2)
      in s'\<lparr>projects_loading := False\<rparr>)"

text \<open>
  \<^verbatim>\<open>formatDate\<close>. \<^verbatim>\<open>!dateString\<close> holds for \<^verbatim>\<open>undefined\<close>, \<^verbatim>\<open>null\<close> and the empty string;
  \<^verbatim>\<open>isValid(date)\<close> holds when the date has a time value.
\<close>

definition isValid :: "Date \<Rightarrow> bool" where
  "isValid date = (date \<noteq> None)"

definition formatDate ::
  "(string \<Rightarrow> Date) \<Rightarrow> (Date \<Rightarrow> exn + string) \<Rightarrow> string js \<Rightarrow> exn + string" where
  "formatDate new_Date formatDistanceToNow dateString =
     (case dateString of
        Undefined \<Rightarrow> Inr ''N/A''
      | Null \<Rightarrow> Inr ''N/A''
      | Val str \<Rightarrow>
          if str = [] then Inr ''N/A''
          else let date = new_Date str in
               if isValid date
               then (case formatDistanceToNow date of
                       Inl e \<Rightarrow> Inl e
                     | Inr distance \<Rightarrow> Inr (distance @ '' ago''))
               else Inr ''N/A'')"

text \<open>
  The three numbers of \<^verbatim>\<open>RepoDetailsModal\<close>, each \<^verbatim>\<open>selectedRepo?.field || 0\<close>.
  The interface is erased at run time: the object held in \<^verbatim>\<open>selectedRepo\<close> is the
  JSON object as it was received, and a read of a count that the interface declares
  as \<^verbatim>\<open>number\<close> gives a number, \<^verbatim>\<open>null\<close>, or \<^verbatim>\<open>undefined\<close> when the property is
  missing. \<open>RepositoryObject\<close> is that object, with what each of the three reads of
  the stats grid gives.
\<close>

record RepositoryObject =
  read_stargazers_count :: "int js"
  read_forks_count :: "int js"
  read_open_issues_count :: "int js"

text \<open>The object of a repository that has the three counts its interface declares.\<close>

definition object_of :: "Repository \<Rightarrow> RepositoryObject" where
  "object_of repo =
     \<lparr>read_stargazers_count = Val (stargazers_count repo),
      read_forks_count = Val (forks_count repo),
      read_open_issues_count = Val (open_issues_count repo)\<rparr>"

text \<open>
  \<open>optional_chain\<close> is \<^verbatim>\<open>obj?.field\<close>: \<^verbatim>\<open>undefined\<close> when \<open>obj\<close> is \<^verbatim>\<open>null\<close>, else the
  read. \<open>or_zero\<close> is \<^verbatim>\<open>x || 0\<close>: \<^verbatim>\<open>undefined\<close>, \<^verbatim>\<open>null\<close> and the number 0 are falsy,
  every other number is truthy.
\<close>

definition optional_chain :: "'r option \<Rightarrow> ('r \<Rightarrow> 'a js) \<Rightarrow> 'a js" where
  "optional_chain obj field = (case obj of None \<Rightarrow> Undefined | Some r \<Rightarrow> field r)"

fun or_zero :: "int js \<Rightarrow> int" where
  "or_zero Undefined = 0"
| "or_zero Null = 0"
| "or_zero (Val n) = (if n = 0 then 0 else n)"

record ModalStats =
  stars_shown :: int
  forks_shown :: int
  issues_shown :: int

definition RepoDetailsModal_stats :: "RepositoryObject option \<Rightarrow> ModalStats" where
  "RepoDetailsModal_stats selectedRepo_object =
     \<lparr>stars_shown = or_zero (optional_chain selectedRepo_object read_stargazers_count),
      forks_shown = or_zero (optional_chain selectedRepo_object read_forks_count),
      issues_shown = or_zero (optional_chain selectedRepo_object read_open_issues_count)\<rparr>"

text \<open>The modal of a screen whose selected repository has its three counts.\<close>

definition ProjectsScreen_modal_stats :: "ProjectsScreen \<Rightarrow> ModalStats" where
  "ProjectsScreen_modal_stats s = RepoDetailsModal_stats (map_option object_of (selectedRepo s))"

section \<open>Properties stated by the specification\<close>

text \<open>Descending by star count, position by position.\<close>

definition sorted_desc_by_stars :: "Repository list \<Rightarrow> bool" where
  "sorted_desc_by_stars xs =
     (\<forall>i j. i < j \<longrightarrow> j < length xs \<longrightarrow>
        stargazers_count (xs ! j) \<le> stargazers_count (xs ! i))"

text \<open>The order of two neighbours in a list that is descending by star count.\<close>

definition desc :: "Repository \<Rightarrow> Repository \<Rightarrow> bool" where
  "desc a b = (stargazers_count b \<le> stargazers_count a)"

text \<open>
  The ways a fetch fails: the promise rejects, the status is not ok, or the body does
  not parse.
\<close>

fun fetch_failed :: "'a Response Promise \<Rightarrow> bool" where
  "fetch_failed (Rejected e) = True"
| "fetch_failed (Fulfilled (Response status body)) = (\<not> status \<or> isl body)"

section \<open>Sample inputs\<close>

definition sample_profile :: GitHubProfile where
  "sample_profile =
     \<lparr>avatar_url = ''https://avatars.githubusercontent.com/u/1'', profile_name = ''Idan Dayani'',
      bio = ''developer'', public_repos = 4, followers = 7\<rparr>"

definition sample_repo :: "int \<Rightarrow> string \<Rightarrow> int \<Rightarrow> string \<Rightarrow> Repository" where
  "sample_repo i n stars created =
     \<lparr>repo_id = i, name = n, description = [], stargazers_count = stars,
      language = ''TypeScript'', created_at = created, updated_at = ''2025-02-01T10:00:00Z'',
      html_url = ''https://github.com/idanDayani/'' @ n, forks_count = 0,
      open_issues_count = 2, topics = []\<rparr>"

definition sample_repos :: "Repository list" where
  "sample_repos =
     [sample_repo 1 ''alpha'' 2 ''2024-01-01T00:00:00Z'',
      sample_repo 2 ''beta'' 9 ''2024-02-01T00:00:00Z'',
      sample_repo 3 ''gamma'' 0 ''not-a-date'',
      sample_repo 4 ''delta'' 5 ''2024-04-01T00:00:00Z'']"

text \<open>A date parser and a date-fns stand-in for the sample inputs.\<close>

definition sample_new_Date :: "string \<Rightarrow> Date" where
  "sample_new_Date str = (if str = ''not-a-date'' \<or> str = [] then None else Some 1704067200000)"

definition sample_formatDistanceToNow :: "Date \<Rightarrow> exn + string" where
  "sample_formatDistanceToNow date =
     (case date of None \<Rightarrow> Inl RangeError | Some t \<Rightarrow> Inr ''about 1 year'')"

section \<open>Helper lemmas\<close>

lemma foldl_add_stars:
  "foldl (\<lambda>acc repo. acc + stargazers_count repo) a xs = a + sum_list (map stargazers_count xs)"
  by (induction xs arbitrary: a) simp_all

lemma fetchGitHubData_succeeded:
  "fetchGitHubData (succeeded p) (succeeded rs) s =
     s\<lparr>totalStars := sum_list (map stargazers_count rs), profile := Some p,
       topRepos := take 3 (Array_sort by_stars rs), loading := False\<rparr>"
  by (simp add: fetchGitHubData_def fetchGitHubData_try_def succeeded_def
      Array_reduce_def Array_slice0_def foldl_add_stars)

lemma mset_insert_by: "mset (insert_by c x xs) = add_mset x (mset xs)"
  by (induction xs) simp_all

lemma mset_Array_sort: "mset (Array_sort c xs) = mset xs"
  by (induction xs) (simp_all add: mset_insert_by)

lemma length_Array_sort: "length (Array_sort c xs) = length xs"
proof -
  have "size (mset (Array_sort c xs)) = size (mset xs)"
    by (simp only: mset_Array_sort)
  then show ?thesis by simp
qed

lemma set_insert_by: "set (insert_by c x xs) = insert x (set xs)"
  by (induction xs) auto

lemma sorted_insert_by:
  "sorted_wrt desc xs \<Longrightarrow> sorted_wrt desc (insert_by by_stars x xs)"
proof (induction xs)
  case Nil
  then show ?case by simp
next
  case (Cons y ys)
  show ?case
  proof (cases "by_stars x y \<le> 0")
    case True
    then have xy: "desc x y" by (simp add: by_stars_def desc_def)
    have "\<forall>z\<in>set ys. desc y z" using Cons.prems by simp
    then have "\<forall>z\<in>set ys. desc x z" using xy by (auto simp: desc_def)
    with xy True Cons.prems show ?thesis by simp
  next
    case False
    then have yx: "desc y x" by (simp add: by_stars_def desc_def)
    have "sorted_wrt desc (insert_by by_stars x ys)" using Cons by simp
    moreover have "\<forall>z\<in>set (insert_by by_stars x ys). desc y z"
      using Cons.prems yx by (simp add: set_insert_by)
    ultimately show ?thesis using False by simp
  qed
qed

lemma sorted_Array_sort: "sorted_wrt desc (Array_sort by_stars xs)"
  by (induction xs) (simp_all add: sorted_insert_by)

lemma sorted_desc_iff: "sorted_desc_by_stars xs = sorted_wrt desc xs"
  unfolding sorted_desc_by_stars_def sorted_wrt_iff_nth_less desc_def by blast

lemma sorted_wrt_prefix: "sorted_wrt P xs \<Longrightarrow> sorted_wrt P (take n xs)"
  by (metis append_take_drop_id sorted_wrt_append)

lemma projects_by_stars_eq: "projects_by_stars = by_stars"
  by (rule ext, rule ext) (simp add: projects_by_stars_def by_stars_def)

lemma fetchRepositories_succeeded:
  "fetchRepositories (succeeded rs) s =
     s\<lparr>repositories := Array_sort by_stars rs, projects_loading := False\<rparr>"
  by (simp add: fetchRepositories_def fetchRepositories_try_def succeeded_def projects_by_stars_eq)

lemma fetch_failed_Fulfilled: "fetch_failed (Fulfilled r) = (\<not> ok r \<or> isl (json r))"
  by (cases r) simp

lemma fetchGitHubData_try_failed:
  "fetch_failed pf \<or> fetch_failed rf \<Longrightarrow> isl (fetchGitHubData_try pf rf s)"
  by (cases pf; cases rf)
     (auto simp: fetchGitHubData_try_def fetch_failed_Fulfilled split: sum.splits)

lemma fetchGitHubData_failed:
  "fetch_failed pf \<or> fetch_failed rf \<Longrightarrow>
   fetchGitHubData pf rf s = s\<lparr>error := Some ''Failed to load profile data'', loading := False\<rparr>"
  using fetchGitHubData_try_failed [of pf rf s]
  by (auto simp: fetchGitHubData_def split: sum.splits)

lemma fetchRepositories_try_failed:
  "fetch_failed rf \<Longrightarrow> isl (fetchRepositories_try rf s)"
  by (cases rf) (auto simp: fetchRepositories_try_def fetch_failed_Fulfilled split: sum.splits)

lemma fetchRepositories_failed:
  "fetch_failed rf \<Longrightarrow>
   fetchRepositories rf s =
     s\<lparr>projects_error := Some ''Failed to load repositories'', projects_loading := False\<rparr>"
  using fetchRepositories_try_failed [of rf s]
  by (auto simp: fetchRepositories_def split: sum.splits)

lemma formatDate_NA:
  "dateString = Undefined \<or> dateString = Null
     \<or> (\<exists>str. dateString = Val str \<and> new_Date str = None)
   \<Longrightarrow> formatDate new_Date formatDistanceToNow dateString = Inr ''N/A''"
  by (auto simp: formatDate_def isValid_def)

lemma mset_take_subset: "mset (take n xs) \<subseteq># mset xs"
proof -
  have "mset xs = mset (take n xs) + mset (drop n xs)"
    by (metis append_take_drop_id mset_append)
  then show ?thesis by simp
qed

section \<open>Claims\<close>

text \<open>
  C1. After a fetch in which both responses succeed, the total star count held by the
  profile screen is the sum of \<open>stargazers_count\<close> over the repositories returned, and
  it is 0 for the empty list.
\<close>

theorem C1_total_stars:
  "totalStars (fetchGitHubData (succeeded p) (succeeded rs) s)
     = sum_list (map stargazers_count rs)
   \<and> totalStars (fetchGitHubData (succeeded p) (succeeded []) s) = 0"
  by (simp add: fetchGitHubData_succeeded)

theorem C1_total_stars_witness:
  "totalStars (fetchGitHubData (succeeded sample_profile) (succeeded sample_repos)
     ProfileScreen_init) = 16"
  using C1_total_stars [of sample_profile sample_repos ProfileScreen_init]
  by (simp add: sample_repos_def sample_repo_def)

text \<open>
  C2. After a successful fetch the top repositories of the profile screen are at most
  three, and they are in descending order of \<open>stargazers_count\<close>: for positions
  \<open>i < j\<close> the count at \<open>i\<close> is at least the count at \<open>j\<close>. Nothing is said about the
  order of repositories with equal counts.
\<close>

theorem C2_top_repos_sorted:
  "length (topRepos (fetchGitHubData (succeeded p) (succeeded rs) s)) \<le> 3
   \<and> sorted_desc_by_stars (topRepos (fetchGitHubData (succeeded p) (succeeded rs) s))"
  by (simp add: fetchGitHubData_succeeded sorted_desc_iff sorted_wrt_prefix sorted_Array_sort)

theorem C2_top_repos_sorted_witness:
  "map stargazers_count (topRepos (fetchGitHubData (succeeded sample_profile)
     (succeeded sample_repos) ProfileScreen_init)) = [9, 5, 2]
   \<and> sorted_desc_by_stars (topRepos (fetchGitHubData (succeeded sample_profile)
     (succeeded sample_repos) ProfileScreen_init))"
  using C2_top_repos_sorted [of sample_profile sample_repos ProfileScreen_init]
  by (simp add: fetchGitHubData_succeeded sample_repos_def sample_repo_def by_stars_def)

text \<open>
  C3. After a successful fetch the list held by the all-repositories screen is in
  descending order of \<open>stargazers_count\<close> over its whole length.
\<close>

theorem C3_all_repositories_sorted:
  "sorted_desc_by_stars (repositories (fetchRepositories (succeeded rs) s))"
  by (simp add: fetchRepositories_succeeded sorted_desc_iff sorted_Array_sort)

theorem C3_all_repositories_sorted_witness:
  "map stargazers_count (repositories (fetchRepositories (succeeded sample_repos)
     ProjectsScreen_init)) = [9, 5, 2, 0]
   \<and> sorted_desc_by_stars (repositories (fetchRepositories (succeeded sample_repos)
     ProjectsScreen_init))"
  using C3_all_repositories_sorted [of sample_repos ProjectsScreen_init]
  by (simp add: fetchRepositories_succeeded sample_repos_def sample_repo_def by_stars_def)

text \<open>
  C4. When a fetch rejects, a response has a status that is not ok, or a body does not
  parse, the operation of either screen sets that screen's fixed error message, clears
  the loading flag and sets nothing else: from any state the profile, the repositories
  and the total are untouched, and from the initial state, in which the operation runs
  on mount, they are empty.
\<close>

theorem C4_failure_sets_error_only:
  "(fetch_failed profileFetch \<or> fetch_failed reposFetch \<longrightarrow>
      fetchGitHubData profileFetch reposFetch s
        = s\<lparr>error := Some ''Failed to load profile data'', loading := False\<rparr>
      \<and> fetchGitHubData profileFetch reposFetch ProfileScreen_init
        = \<lparr>profile = None, topRepos = [], totalStars = 0, loading = False,
           error = Some ''Failed to load profile data''\<rparr>)
   \<and> (fetch_failed reposFetch \<longrightarrow>
      fetchRepositories reposFetch t
        = t\<lparr>projects_error := Some ''Failed to load repositories'', projects_loading := False\<rparr>
      \<and> fetchRepositories reposFetch ProjectsScreen_init
        = \<lparr>repositories = [], selectedRepo = None, projects_loading = False,
           projects_error = Some ''Failed to load repositories''\<rparr>)"
  by (simp add: fetchGitHubData_failed fetchRepositories_failed
      ProfileScreen_init_def ProjectsScreen_init_def)

theorem C4_failure_sets_error_only_witness:
  "fetch_failed (Fulfilled (Response False (Inr sample_repos)))
   \<and> fetchGitHubData (succeeded sample_profile) (Fulfilled (Response False (Inr sample_repos)))
       ProfileScreen_init
     = \<lparr>profile = None, topRepos = [], totalStars = 0, loading = False,
        error = Some ''Failed to load profile data''\<rparr>
   \<and> fetchRepositories (Fulfilled (Response False (Inr sample_repos))) ProjectsScreen_init
     = \<lparr>repositories = [], selectedRepo = None, projects_loading = False,
        projects_error = Some ''Failed to load repositories''\<rparr>"
  using C4_failure_sets_error_only [of "succeeded sample_profile"
      "Fulfilled (Response False (Inr sample_repos))" ProfileScreen_init ProjectsScreen_init]
  by (simp add: ProfileScreen_init_def ProjectsScreen_init_def)

text \<open>
  C5 as stated: when an invocation that fails is followed by one that succeeds, the
  state is exactly that of a fresh successful fetch, with no error shown. This is false
  on both screens: the successful path has no \<^verbatim>\<open>setError(null)\<close>, so the message of the
  failed invocation stays, and the screen goes on rendering it.
\<close>

theorem C5_stale_error_counterexample:
  "fetch_failed (Rejected TypeError :: Repository list Response Promise)
   \<and> fetchGitHubData (succeeded sample_profile) (succeeded sample_repos)
       (fetchGitHubData (succeeded sample_profile) (Rejected TypeError) ProfileScreen_init)
     \<noteq> fetchGitHubData (succeeded sample_profile) (succeeded sample_repos) ProfileScreen_init
   \<and> error (fetchGitHubData (succeeded sample_profile) (succeeded sample_repos)
       (fetchGitHubData (succeeded sample_profile) (Rejected TypeError) ProfileScreen_init))
     = Some ''Failed to load profile data''
   \<and> fetchRepositories (succeeded sample_repos)
       (fetchRepositories (Rejected TypeError) ProjectsScreen_init)
     \<noteq> fetchRepositories (succeeded sample_repos) ProjectsScreen_init
   \<and> projects_error (fetchRepositories (succeeded sample_repos)
       (fetchRepositories (Rejected TypeError) ProjectsScreen_init))
     = Some ''Failed to load repositories''"
  by (simp add: fetchGitHubData_succeeded fetchRepositories_succeeded
      fetchGitHubData_failed fetchRepositories_failed
      ProfileScreen_init_def ProjectsScreen_init_def)

text \<open>
  C5, amended. When an invocation that fails is followed by one that succeeds, the
  state is that of a fresh successful fetch in every cell but the error: profile,
  repositories, total and loading flag are replaced in full, and the error message set
  by the failed invocation remains.
\<close>

theorem C5_success_after_failure:
  "(fetch_failed profileFetch \<or> fetch_failed reposFetch \<longrightarrow>
      fetchGitHubData (succeeded p) (succeeded rs)
          (fetchGitHubData profileFetch reposFetch ProfileScreen_init)
        = (fetchGitHubData (succeeded p) (succeeded rs) ProfileScreen_init)
            \<lparr>error := Some ''Failed to load profile data''\<rparr>)
   \<and> (fetch_failed reposFetch \<longrightarrow>
      fetchRepositories (succeeded rs) (fetchRepositories reposFetch ProjectsScreen_init)
        = (fetchRepositories (succeeded rs) ProjectsScreen_init)
            \<lparr>projects_error := Some ''Failed to load repositories''\<rparr>)"
  by (simp add: fetchGitHubData_succeeded fetchRepositories_succeeded
      fetchGitHubData_failed fetchRepositories_failed)

theorem C5_success_after_failure_witness:
  "fetch_failed (Rejected TypeError :: Repository list Response Promise)
   \<and> fetchGitHubData (succeeded sample_profile) (succeeded sample_repos)
       (fetchGitHubData (succeeded sample_profile) (Rejected TypeError) ProfileScreen_init)
     = \<lparr>profile = Some sample_profile,
        topRepos = [sample_repo 2 ''beta'' 9 ''2024-02-01T00:00:00Z'',
                    sample_repo 4 ''delta'' 5 ''2024-04-01T00:00:00Z'',
                    sample_repo 1 ''alpha'' 2 ''2024-01-01T00:00:00Z''],
        totalStars = 16, loading = False, error = Some ''Failed to load profile data''\<rparr>
   \<and> fetchRepositories (succeeded sample_repos)
       (fetchRepositories (Rejected TypeError) ProjectsScreen_init)
     = \<lparr>repositories = [sample_repo 2 ''beta'' 9 ''2024-02-01T00:00:00Z'',
                        sample_repo 4 ''delta'' 5 ''2024-04-01T00:00:00Z'',
                        sample_repo 1 ''alpha'' 2 ''2024-01-01T00:00:00Z'',
                        sample_repo 3 ''gamma'' 0 ''not-a-date''],
        selectedRepo = None, projects_loading = False,
        projects_error = Some ''Failed to load repositories''\<rparr>"
  using C5_success_after_failure [of "succeeded sample_profile" "Rejected TypeError"
      sample_profile sample_repos]
  by (simp add: fetchGitHubData_succeeded fetchRepositories_succeeded
      ProfileScreen_init_def ProjectsScreen_init_def sample_repos_def by_stars_def
      sample_repo_def)

text \<open>
  C6. A repository date that is missing, null or unparseable is displayed as \<open>N/A\<close>
  wherever a date is rendered. \<^verbatim>\<open>formatDate\<close> of \<^verbatim>\<open>projects.tsx\<close> does so (lemma
  \<open>formatDate_NA\<close>). The cards of the profile screen do not: for a \<open>created_at\<close> that
  does not parse, where \<^verbatim>\<open>formatDate\<close> gives \<open>N/A\<close>, they pass the invalid date to
  \<^verbatim>\<open>formatDistanceToNow\<close> unchecked, and what they display is its exception or its
  result followed by \<open>ago\<close>, never \<open>N/A\<close>.
\<close>

theorem C6_profile_screen_date_unguarded:
  "new_Date (created_at repo) = None \<longrightarrow>
     formatDate new_Date formatDistanceToNow (Val (created_at repo)) = Inr ''N/A''
     \<and> ProfileScreen_date new_Date formatDistanceToNow (created_at repo)
         = (case formatDistanceToNow None of
              Inl e \<Rightarrow> Inl e | Inr distance \<Rightarrow> Inr (distance @ '' ago''))
     \<and> ProfileScreen_date new_Date formatDistanceToNow (created_at repo) \<noteq> Inr ''N/A''"
  by (auto simp: formatDate_NA ProfileScreen_date_def split: sum.splits)

theorem C6_profile_screen_date_unguarded_witness:
  "sample_new_Date (created_at (sample_repo 3 ''gamma'' 0 ''not-a-date'')) = None
   \<and> formatDate sample_new_Date sample_formatDistanceToNow
       (Val (created_at (sample_repo 3 ''gamma'' 0 ''not-a-date''))) = Inr ''N/A''
   \<and> ProfileScreen_date sample_new_Date sample_formatDistanceToNow
       (created_at (sample_repo 3 ''gamma'' 0 ''not-a-date'')) = Inl RangeError"
  using C6_profile_screen_date_unguarded [of sample_new_Date
      "sample_repo 3 ''gamma'' 0 ''not-a-date''" sample_formatDistanceToNow]
  by (simp add: sample_new_Date_def sample_repo_def sample_formatDistanceToNow_def)

text \<open>
  C7. The two screens sort alike: on the same repository list the comparator of
  \<^verbatim>\<open>index.tsx\<close> and the comparator of \<^verbatim>\<open>projects.tsx\<close> give the same order, and the top
  repositories of the profile screen are the first three repositories of the
  all-repositories screen.
\<close>

theorem C7_same_sort:
  "Array_sort by_stars rs = Array_sort projects_by_stars rs
   \<and> topRepos (fetchGitHubData (succeeded p) (succeeded rs) s)
       = take 3 (repositories (fetchRepositories (succeeded rs) t))"
  by (simp add: fetchGitHubData_succeeded fetchRepositories_succeeded projects_by_stars_eq)

theorem C7_same_sort_witness:
  "map name (topRepos (fetchGitHubData (succeeded sample_profile) (succeeded sample_repos)
       ProfileScreen_init)) = [''beta'', ''delta'', ''alpha'']
   \<and> map name (take 3 (repositories (fetchRepositories (succeeded sample_repos)
       ProjectsScreen_init))) = [''beta'', ''delta'', ''alpha'']"
  using C7_same_sort [of sample_repos sample_profile ProfileScreen_init ProjectsScreen_init]
  by (simp add: fetchGitHubData_succeeded fetchRepositories_succeeded sample_repos_def
      sample_repo_def by_stars_def projects_by_stars_def)

text \<open>
  C8. The list held by the all-repositories screen after a successful fetch is a
  permutation of the fetched list: each repository occurs as often as it was fetched.
\<close>

theorem C8_sort_is_permutation:
  "mset (repositories (fetchRepositories (succeeded rs) s)) = mset rs"
  by (simp add: fetchRepositories_succeeded mset_Array_sort)

theorem C8_sort_is_permutation_witness:
  "mset (repositories (fetchRepositories (succeeded sample_repos) ProjectsScreen_init))
     = mset sample_repos
   \<and> length (repositories (fetchRepositories (succeeded sample_repos) ProjectsScreen_init)) = 4"
  using C8_sort_is_permutation [of sample_repos ProjectsScreen_init]
  by (simp add: fetchRepositories_succeeded length_Array_sort sample_repos_def)

text \<open>
  C9. For a fetched list of \<open>n\<close> repositories the profile screen holds exactly
  \<open>min 3 n\<close> top repositories. When the owner has fewer than three repositories all
  of them appear, each as often as it was fetched, and in every case the top
  repositories are taken from the fetched list: nothing is added to fill the three
  places.
\<close>

theorem C9_top_repos_length:
  "length (topRepos (fetchGitHubData (succeeded p) (succeeded rs) s)) = min 3 (length rs)
   \<and> (length rs < 3 \<longrightarrow>
        mset (topRepos (fetchGitHubData (succeeded p) (succeeded rs) s)) = mset rs)
   \<and> mset (topRepos (fetchGitHubData (succeeded p) (succeeded rs) s)) \<subseteq># mset rs"
proof -
  let ?sorted = "Array_sort by_stars rs"
  have top: "topRepos (fetchGitHubData (succeeded p) (succeeded rs) s) = take 3 ?sorted"
    by (simp add: fetchGitHubData_succeeded)
  have len: "length (take 3 ?sorted) = min 3 (length rs)"
    by (simp add: length_Array_sort min.commute)
  have all: "length rs < 3 \<longrightarrow> mset (take 3 ?sorted) = mset rs"
    by (simp add: length_Array_sort mset_Array_sort)
  have sub: "mset (take 3 ?sorted) \<subseteq># mset rs"
    using mset_take_subset [of 3 ?sorted] by (simp add: mset_Array_sort)
  from len all sub show ?thesis unfolding top by blast
qed

theorem C9_top_repos_length_witness:
  "length (topRepos (fetchGitHubData (succeeded sample_profile) (succeeded sample_repos)
       ProfileScreen_init)) = 3
   \<and> length [sample_repo 1 ''alpha'' 2 ''2024-01-01T00:00:00Z'',
              sample_repo 2 ''beta'' 9 ''2024-02-01T00:00:00Z''] < 3
   \<and> topRepos (fetchGitHubData (succeeded sample_profile)
       (succeeded [sample_repo 1 ''alpha'' 2 ''2024-01-01T00:00:00Z'',
                   sample_repo 2 ''beta'' 9 ''2024-02-01T00:00:00Z'']) ProfileScreen_init)
     = [sample_repo 2 ''beta'' 9 ''2024-02-01T00:00:00Z'',
        sample_repo 1 ''alpha'' 2 ''2024-01-01T00:00:00Z'']
   \<and> mset (topRepos (fetchGitHubData (succeeded sample_profile)
       (succeeded [sample_repo 1 ''alpha'' 2 ''2024-01-01T00:00:00Z'',
                   sample_repo 2 ''beta'' 9 ''2024-02-01T00:00:00Z'']) ProfileScreen_init))
     = mset [sample_repo 1 ''alpha'' 2 ''2024-01-01T00:00:00Z'',
             sample_repo 2 ''beta'' 9 ''2024-02-01T00:00:00Z'']"
  using C9_top_repos_length [of sample_profile sample_repos ProfileScreen_init]
    C9_top_repos_length [of sample_profile
      "[sample_repo 1 ''alpha'' 2 ''2024-01-01T00:00:00Z'',
        sample_repo 2 ''beta'' 9 ''2024-02-01T00:00:00Z'']" ProfileScreen_init]
  by (simp add: sample_repos_def fetchGitHubData_succeeded by_stars_def sample_repo_def)

text \<open>
  C10. Each number of the detail modal is \<^verbatim>\<open>selectedRepo?.field || 0\<close>. For the
  selected repository as it is held at run time, a \<open>stargazers_count\<close>, \<open>forks_count\<close>
  or \<open>open_issues_count\<close> that is missing (the read gives \<^verbatim>\<open>undefined\<close>), \<^verbatim>\<open>null\<close> or 0 is
  shown as the number 0, and any other count as itself; with no repository selected
  the three numbers are 0. The display is a number for every selected object, and for
  a repository that has its three counts it is those counts.
\<close>

theorem C10_modal_stats_default_zero:
  "RepoDetailsModal_stats None = \<lparr>stars_shown = 0, forks_shown = 0, issues_shown = 0\<rparr>
   \<and> (read_stargazers_count obj \<in> {Undefined, Null, Val 0} \<longrightarrow>
        stars_shown (RepoDetailsModal_stats (Some obj)) = 0)
   \<and> (read_forks_count obj \<in> {Undefined, Null, Val 0} \<longrightarrow>
        forks_shown (RepoDetailsModal_stats (Some obj)) = 0)
   \<and> (read_open_issues_count obj \<in> {Undefined, Null, Val 0} \<longrightarrow>
        issues_shown (RepoDetailsModal_stats (Some obj)) = 0)
   \<and> (read_stargazers_count obj = Val n \<longrightarrow>
        stars_shown (RepoDetailsModal_stats (Some obj)) = n)
   \<and> (read_forks_count obj = Val n \<longrightarrow>
        forks_shown (RepoDetailsModal_stats (Some obj)) = n)
   \<and> (read_open_issues_count obj = Val n \<longrightarrow>
        issues_shown (RepoDetailsModal_stats (Some obj)) = n)
   \<and> ProjectsScreen_modal_stats (s\<lparr>selectedRepo := None\<rparr>)
       = \<lparr>stars_shown = 0, forks_shown = 0, issues_shown = 0\<rparr>
   \<and> ProjectsScreen_modal_stats (s\<lparr>selectedRepo := Some repo\<rparr>)
       = \<lparr>stars_shown = stargazers_count repo, forks_shown = forks_count repo,
          issues_shown = open_issues_count repo\<rparr>"
  by (auto simp: RepoDetailsModal_stats_def ProjectsScreen_modal_stats_def
      optional_chain_def object_of_def)

theorem C10_modal_stats_default_zero_witness:
  "read_stargazers_count \<lparr>read_stargazers_count = Undefined, read_forks_count = Null,
       read_open_issues_count = Val 0\<rparr> \<in> {Undefined, Null, Val 0}
   \<and> RepoDetailsModal_stats (Some \<lparr>read_stargazers_count = Undefined, read_forks_count = Null,
       read_open_issues_count = Val 0\<rparr>)
       = \<lparr>stars_shown = 0, forks_shown = 0, issues_shown = 0\<rparr>
   \<and> RepoDetailsModal_stats (Some \<lparr>read_stargazers_count = Val 7, read_forks_count = Null,
       read_open_issues_count = Val 7\<rparr>)
       = \<lparr>stars_shown = 7, forks_shown = 0, issues_shown = 7\<rparr>
   \<and> ProjectsScreen_modal_stats (ProjectsScreen_init
         \<lparr>selectedRepo := Some (sample_repo 3 ''gamma'' 0 ''not-a-date'')\<rparr>)
       = \<lparr>stars_shown = 0, forks_shown = 0, issues_shown = 2\<rparr>"
  using C10_modal_stats_default_zero [of "\<lparr>read_stargazers_count = Undefined,
      read_forks_count = Null, read_open_issues_count = Val 0\<rparr>" 0 ProjectsScreen_init
      "sample_repo 3 ''gamma'' 0 ''not-a-date''"]
    C10_modal_stats_default_zero [of "\<lparr>read_stargazers_count = Val 7,
      read_forks_count = Null, read_open_issues_count = Val 7\<rparr>" 7 ProjectsScreen_init
      "sample_repo 3 ''gamma'' 0 ''not-a-date''"]
  by (simp add: sample_repo_def ModalStats.equality)

end
